theory Spec2Isabelle
  imports Main "HOL-Library.Sublist"
begin

section \<open>Paths and file names\<close>

text \<open>
  The program handles \<^verbatim>\<open>pathlib.Path\<close> values. A path is modelled by the list of its
  components below the root; \<^verbatim>\<open>Path.name\<close> is the final component, or the empty string
  when there is none.
\<close>

type_synonym path = "string list"

definition name :: "path \<Rightarrow> string" where
  "name p = (if p = [] then [] else last p)"

definition parent :: "path \<Rightarrow> path" where
  "parent p = butlast p"

text \<open>
  \<^verbatim>\<open>directory / s\<close> for a string \<open>s\<close> without a separator: pathlib drops an empty
  component and a \<^verbatim>\<open>.\<close> component, and appends any other; a component \<^verbatim>\<open>..\<close> is
  kept, and resolved by the file system only.
\<close>

definition joinpath :: "path \<Rightarrow> string \<Rightarrow> path" where
  "joinpath p s = (if s = [] \<or> s = ''.'' then p else p @ [s])"

text \<open>Python's \<^verbatim>\<open>needle in hay\<close> on strings: \<open>needle\<close> occurs as a contiguous block.\<close>

definition str_in :: "string \<Rightarrow> string \<Rightarrow> bool" where
  "str_in needle hay = sublist needle hay"

text \<open>
  Python's \<^verbatim>\<open>s.split(sep)\<close> for a one-character separator: the fields between the
  separators, never an empty list.
\<close>

fun split_chr :: "char \<Rightarrow> string \<Rightarrow> string list" where
  "split_chr sep [] = [[]]"
| "split_chr sep (c # cs) =
     (if c = sep then [] # split_chr sep cs
      else (case split_chr sep cs of
              [] \<Rightarrow> [[c]]
            | w # ws \<Rightarrow> (c # w) # ws))"

section \<open>SampleIdentifier: \<^verbatim>\<open>retrieve_sampleids\<close>\<close>

text \<open>
  \<^verbatim>\<open>sample_id = f.name.split('_')[0]\<close>. The list returned by \<open>split\<close> is never empty,
  so the index \<open>[0]\<close> cannot raise; the \<open>[]\<close> case below is unreachable and only makes the
  function total.
\<close>

definition sample_id_of :: "path \<Rightarrow> string" where
  "sample_id_of f = (case split_chr (CHR ''_'') (name f) of [] \<Rightarrow> [] | w # _ \<Rightarrow> w)"

text \<open>
  The loop appends the sample ID of every file; \<^verbatim>\<open>list(set(sample_id_list))\<close> then
  removes the duplicates. Python does not fix the order in which a set is listed:
  \<open>remdups\<close> is one such listing, and the orchestrator below takes the listing order
  as a parameter.
\<close>

definition retrieve_sampleids :: "path list \<Rightarrow> string list" where
  "retrieve_sampleids fastq_file_list = remdups (map sample_id_of fastq_file_list)"

section \<open>ReadPairer: \<^verbatim>\<open>get_readpair\<close>\<close>

datatype log_msg =
    CreatedOutputDirectory path
  | FindingFastq path
  | FindingSampleIds
  | FoundSampleIds nat
  | CouldNotPair string
  | PipelineComplete path

text \<open>One iteration of the loop over \<open>fastq_file_list\<close>, on the two slots \<open>(r1, r2)\<close>.\<close>

definition readpair_step ::
  "string \<Rightarrow> string \<Rightarrow> string \<Rightarrow> path option \<times> path option \<Rightarrow> path \<Rightarrow> path option \<times> path option"
where
  "readpair_step sample_id forward_id reverse_id slots f =
     (if str_in sample_id (name f) then
        (if str_in forward_id (name f) then (Some f, snd slots)
         else if str_in reverse_id (name f) then (fst slots, Some f)
         else slots)
      else slots)"

definition readpair_slots ::
  "string \<Rightarrow> path list \<Rightarrow> string \<Rightarrow> string \<Rightarrow> path option \<times> path option"
where
  "readpair_slots sample_id fastq_file_list forward_id reverse_id =
     foldl (readpair_step sample_id forward_id reverse_id) (None, None) fastq_file_list"

text \<open>
  The result of \<open>get_readpair\<close> is the list \<^verbatim>\<open>[r1, r2]\<close> of the two slots, or \<open>None\<close>
  together with the message that the function logs.
\<close>

definition get_readpair ::
  "string \<Rightarrow> path list \<Rightarrow> string \<Rightarrow> string \<Rightarrow> (path option \<times> path option) option \<times> log_msg list"
where
  "get_readpair sample_id fastq_file_list forward_id reverse_id =
     (let (r1, r2) = readpair_slots sample_id fastq_file_list forward_id reverse_id
      in if r1 \<noteq> None \<and> r2 \<noteq> None then (Some (r1, r2), [])
         else (None, [CouldNotPair sample_id]))"

text \<open>
  \<open>marker_match\<close>: the name of \<open>f\<close> contains the sample ID and the marker. The loop
  assigns to the forward slot the files that match the forward marker, and to the reverse
  slot the files that match the reverse marker and do not contain the forward marker.
\<close>

definition marker_match :: "string \<Rightarrow> string \<Rightarrow> path \<Rightarrow> bool" where
  "marker_match sample_id marker f \<longleftrightarrow>
     str_in sample_id (name f) \<and> str_in marker (name f)"

definition rev_match :: "string \<Rightarrow> string \<Rightarrow> string \<Rightarrow> path \<Rightarrow> bool" where
  "rev_match sample_id forward_id reverse_id f \<longleftrightarrow>
     marker_match sample_id reverse_id f \<and> \<not> str_in forward_id (name f)"

definition last_opt :: "'a list \<Rightarrow> 'a option" where
  "last_opt xs = (if xs = [] then None else Some (last xs))"

section \<open>The file system\<close>

text \<open>
  The file system is a table from canonical paths (without \<^verbatim>\<open>.\<close> and \<^verbatim>\<open>..\<close>) to the
  kind of entry found there, in the order in which \<^verbatim>\<open>os.scandir\<close> lists the entries.
  The root always exists and is a directory.
\<close>

datatype kind = File | Dir

type_synonym filesystem = "(path \<times> kind) list"

datatype error =
    TypeError
  | FileExistsError
  | FileNotFoundError
  | NotADirectoryError
  | CollaboratorError string

text \<open>The entry at a canonical path.\<close>

definition node :: "filesystem \<Rightarrow> path \<Rightarrow> kind option" where
  "node fs q = (if q = [] then Some Dir else map_of fs q)"

text \<open>
  The operating system resolves a path component by component, each time from a
  directory: \<^verbatim>\<open>..\<close> leads to the parent (the root is its own parent), \<^verbatim>\<open>.\<close> and an
  empty component stay, and any other component leads to the child of that name. A step
  from a missing entry fails with \<open>FileNotFoundError\<close>, a step from a file with
  \<open>NotADirectoryError\<close>.
\<close>

definition step :: "path \<Rightarrow> string \<Rightarrow> path" where
  "step cur c = (if c = ''..'' then butlast cur else if c = ''.'' \<or> c = [] then cur else cur @ [c])"

fun resolve :: "filesystem \<Rightarrow> path \<Rightarrow> path \<Rightarrow> error + path" where
  "resolve fs cur [] = Inr cur"
| "resolve fs cur (c # cs) =
     (case node fs cur of
        None \<Rightarrow> Inl FileNotFoundError
      | Some File \<Rightarrow> Inl NotADirectoryError
      | Some Dir \<Rightarrow> resolve fs (step cur c) cs)"

definition lookup :: "filesystem \<Rightarrow> path \<Rightarrow> kind option" where
  "lookup fs p = (case resolve fs [] p of Inl e \<Rightarrow> None | Inr q \<Rightarrow> node fs q)"

definition exists :: "filesystem \<Rightarrow> path \<Rightarrow> bool" where
  "exists fs p \<longleftrightarrow> lookup fs p \<noteq> None"

definition is_dir :: "filesystem \<Rightarrow> path \<Rightarrow> bool" where
  "is_dir fs p \<longleftrightarrow> lookup fs p = Some Dir"

text \<open>The entries of a directory that is given by its canonical path.\<close>

definition scandir :: "filesystem \<Rightarrow> path \<Rightarrow> path list" where
  "scandir fs d = [p \<leftarrow> map fst fs. p \<noteq> [] \<and> parent p = d]"

section \<open>FileScanner: \<^verbatim>\<open>retrieve_fastqgz\<close>\<close>

text \<open>
  \<^verbatim>\<open>fnmatch\<close> as pathlib uses it on POSIX: the pattern is translated to a regular
  expression that has to match the whole name, case-sensitively; \<^verbatim>\<open>*\<close> stands for any
  run of characters, \<^verbatim>\<open>?\<close> for any one character, and every other character for itself.
  Bracket expressions are left out: the pattern of this program has none.
\<close>

fun fnmatch :: "string \<Rightarrow> string \<Rightarrow> bool" where
  "fnmatch [] s = (s = [])"
| "fnmatch (p # ps) s =
     (if p = CHR ''*'' then
        (fnmatch ps s \<or> (case s of [] \<Rightarrow> False | _ # t \<Rightarrow> fnmatch (p # ps) t))
      else (case s of
              [] \<Rightarrow> False
            | c # t \<Rightarrow> (p = CHR ''?'' \<or> p = c) \<and> fnmatch ps t))"

text \<open>
  \<^verbatim>\<open>list(directory.glob("*.f*q*"))\<close>. \<^verbatim>\<open>Path.glob\<close> yields nothing when \<open>directory\<close>
  is not an existing directory (its selector returns an empty iterator and raises
  nothing); otherwise it yields \<open>directory / name\<close> for every entry, of any kind, whose name
  matches the pattern.
\<close>

definition retrieve_fastqgz :: "filesystem \<Rightarrow> path \<Rightarrow> path list" where
  "retrieve_fastqgz fs directory =
     (if is_dir fs directory
      then [p \<leftarrow> scandir fs directory. fnmatch ''*.f*q*'' (name p)]
      else [])"

section \<open>Directory creation: \<^verbatim>\<open>os.makedirs\<close>\<close>

text \<open>A computation either finishes or raises; both leave a state behind.\<close>

datatype 'a outcome = Done 'a | Raised error 'a

definition bind :: "'a outcome \<Rightarrow> ('a \<Rightarrow> 'a outcome) \<Rightarrow> 'a outcome" where
  "bind r k = (case r of Done a \<Rightarrow> k a | Raised e a \<Rightarrow> Raised e a)"

text \<open>
  \<^verbatim>\<open>os.mkdir\<close>: the path must not exist, and its parent must resolve to a directory; the
  new directory is entered under its canonical path.
\<close>

definition mkdir :: "path \<Rightarrow> filesystem \<Rightarrow> filesystem outcome" where
  "mkdir p fs =
     (if exists fs p then Raised FileExistsError fs
      else (case resolve fs [] (parent p) of
              Inl e \<Rightarrow> Raised e fs
            | Inr q \<Rightarrow>
                (case node fs q of
                   None \<Rightarrow> Raised FileNotFoundError fs
                 | Some File \<Rightarrow> Raised NotADirectoryError fs
                 | Some Dir \<Rightarrow> Done (fs @ [(step q (name p), Dir)]))))"

text \<open>
  \<^verbatim>\<open>os.makedirs(name, exist_ok=...)\<close>: create the missing parent first (a
  \<open>FileExistsError\<close> from there is passed over), then the directory itself; an error of
  \<open>mkdir\<close> is re-raised unless \<open>exist_ok\<close> holds and the path is a directory.
\<close>

function makedirs :: "path \<Rightarrow> bool \<Rightarrow> filesystem \<Rightarrow> filesystem outcome" where
  "makedirs p exist_ok fs =
     (case (if p \<noteq> [] \<and> \<not> exists fs (parent p)
            then (case makedirs (parent p) exist_ok fs of
                    Done fs' \<Rightarrow> Done fs'
                  | Raised e fs' \<Rightarrow> if e = FileExistsError then Done fs' else Raised e fs')
            else Done fs) of
        Raised e fs1 \<Rightarrow> Raised e fs1
      | Done fs1 \<Rightarrow>
          (case mkdir p fs1 of
             Done fs2 \<Rightarrow> Done fs2
           | Raised e fs2 \<Rightarrow>
               if \<not> exist_ok \<or> \<not> is_dir fs2 p then Raised e fs2 else Done fs2))"
  by pat_completeness auto
termination
  by (relation "measure (\<lambda>(p, exist_ok, fs). length p)") (auto simp: parent_def)

declare makedirs.simps [simp del]

section \<open>BatchOrchestrator: \<^verbatim>\<open>assemble_dir\<close>\<close>

text \<open>
  The state of a run: the file system and the record of what the orchestrator has done so
  far (messages logged, directories asked for, collaborators called).
\<close>

datatype event =
    Log log_msg
  | MakeDirs path
  | AssemblyPipeline "path option" "path option" path string
  | CleanUp path

record world =
  fsys :: filesystem
  events :: "event list"

definition info :: "log_msg \<Rightarrow> world \<Rightarrow> world" where
  "info m w = w\<lparr>events := events w @ [Log m]\<rparr>"

definition infos :: "log_msg list \<Rightarrow> world \<Rightarrow> world" where
  "infos ms w = w\<lparr>events := events w @ map Log ms\<rparr>"

text \<open>An action on the file system, recorded as event \<open>ev\<close> when it is started.\<close>

definition perform :: "event \<Rightarrow> (filesystem \<Rightarrow> filesystem outcome) \<Rightarrow> world \<Rightarrow> world outcome" where
  "perform ev act w =
     (case act (fsys w) of
        Done fs' \<Rightarrow> Done \<lparr>fsys = fs', events = events w @ [ev]\<rparr>
      | Raised e fs' \<Rightarrow> Raised e \<lparr>fsys = fs', events = events w @ [ev]\<rparr>)"

text \<open>
  The collaborators \<open>assembly_pipeline\<close> and \<open>clean_up\<close> are imported from another
  module; they are parameters of the model, acting on the file system.
\<close>

type_synonym pipeline = "path option \<Rightarrow> path option \<Rightarrow> path \<Rightarrow> string \<Rightarrow> filesystem \<Rightarrow> filesystem outcome"
type_synonym cleaner = "path \<Rightarrow> filesystem \<Rightarrow> filesystem outcome"

text \<open>
  The body of the loop over \<open>sample_ids\<close>. When \<open>get_readpair\<close> returns \<open>None\<close>, the
  unpacking \<^verbatim>\<open>r1, r2 = get_readpair(...)\<close> raises \<open>TypeError\<close>.
\<close>

definition process_sample ::
  "pipeline \<Rightarrow> cleaner \<Rightarrow> path list \<Rightarrow> path \<Rightarrow> string \<Rightarrow> string \<Rightarrow> string \<Rightarrow> world \<Rightarrow> world outcome"
where
  "process_sample assembly_pipeline clean_up fastq_file_list out_dir fwd_id rev_id sample_id w =
     (case get_readpair sample_id fastq_file_list fwd_id rev_id of
        (None, msgs) \<Rightarrow> Raised TypeError (infos msgs w)
      | (Some (r1, r2), msgs) \<Rightarrow>
          (let sample_out_dir = joinpath out_dir sample_id in
           bind (perform (MakeDirs sample_out_dir) (makedirs sample_out_dir True) (infos msgs w))
             (\<lambda>w1. bind (perform (AssemblyPipeline r1 r2 sample_out_dir sample_id)
                            (assembly_pipeline r1 r2 sample_out_dir sample_id) w1)
                (\<lambda>w2. perform (CleanUp sample_out_dir) (clean_up sample_out_dir) w2))))"

fun run_samples :: "(string \<Rightarrow> world \<Rightarrow> world outcome) \<Rightarrow> string list \<Rightarrow> world \<Rightarrow> world outcome" where
  "run_samples body [] w = Done w"
| "run_samples body (sample_id # rest) w =
     (case body sample_id w of
        Done w' \<Rightarrow> run_samples body rest w'
      | Raised e w' \<Rightarrow> Raised e w')"

text \<open>
  \<open>listing\<close> is the order in which Python lists the set of sample IDs; it is meant to be
  a permutation.
\<close>

definition assemble_dir ::
  "(string list \<Rightarrow> string list) \<Rightarrow> pipeline \<Rightarrow> cleaner \<Rightarrow> path \<Rightarrow> path \<Rightarrow> string \<Rightarrow> string \<Rightarrow> world \<Rightarrow> world outcome"
where
  "assemble_dir listing assembly_pipeline clean_up input_dir out_dir fwd_id rev_id w =
     bind (perform (MakeDirs out_dir) (makedirs out_dir True) w)
       (\<lambda>w1. let w2 = info (FindingFastq input_dir) (info (CreatedOutputDirectory out_dir) w1);
                  fastq_file_list = retrieve_fastqgz (fsys w2) input_dir;
                  w3 = info FindingSampleIds w2;
                  sample_ids = listing (retrieve_sampleids fastq_file_list);
                  w4 = info (FoundSampleIds (length sample_ids)) w3
              in bind (run_samples
                         (process_sample assembly_pipeline clean_up fastq_file_list out_dir fwd_id rev_id)
                         sample_ids w4)
                   (\<lambda>w5. Done (info (PipelineComplete out_dir) w5)))"

section \<open>Properties of the pairing loop\<close>

lemma readpair_step_cases:
  "readpair_step s fw rv slots f =
     (if marker_match s fw f then (Some f, snd slots)
      else if rev_match s fw rv f then (fst slots, Some f)
      else slots)"
  by (simp add: readpair_step_def marker_match_def rev_match_def)

lemma foldl_readpair_step:
  "foldl (readpair_step s fw rv) (a, b) fs =
     (case last_opt (filter (marker_match s fw) fs) of None \<Rightarrow> a | Some f \<Rightarrow> Some f,
      case last_opt (filter (rev_match s fw rv) fs) of None \<Rightarrow> b | Some f \<Rightarrow> Some f)"
proof (induction fs arbitrary: a b)
  case Nil
  show ?case by (simp add: last_opt_def)
next
  case (Cons f fs)
  consider (fwd) "marker_match s fw f" "\<not> rev_match s fw rv f"
    | (rvs) "\<not> marker_match s fw f" "rev_match s fw rv f"
    | (none) "\<not> marker_match s fw f" "\<not> rev_match s fw rv f"
    by (auto simp: marker_match_def rev_match_def)
  then show ?case
  proof cases
    case fwd
    then have "readpair_step s fw rv (a, b) f = (Some f, b)"
      by (simp add: readpair_step_cases)
    with fwd show ?thesis
      by (simp add: Cons.IH last_opt_def)
  next
    case rvs
    then have "readpair_step s fw rv (a, b) f = (a, Some f)"
      by (simp add: readpair_step_cases)
    with rvs show ?thesis
      by (simp add: Cons.IH last_opt_def)
  next
    case none
    then have "readpair_step s fw rv (a, b) f = (a, b)"
      by (simp add: readpair_step_cases)
    with none show ?thesis
      by (simp add: Cons.IH)
  qed
qed

lemma readpair_slots_last:
  "readpair_slots s fs fw rv =
     (last_opt (filter (marker_match s fw) fs), last_opt (filter (rev_match s fw rv) fs))"
  by (simp add: readpair_slots_def foldl_readpair_step split: option.splits)

lemma get_readpair_eq:
  "get_readpair s fs fw rv =
     (if filter (marker_match s fw) fs \<noteq> [] \<and> filter (rev_match s fw rv) fs \<noteq> []
      then (Some (Some (last (filter (marker_match s fw) fs)),
                  Some (last (filter (rev_match s fw rv) fs))), [])
      else (None, [CouldNotPair s]))"
  by (simp add: get_readpair_def readpair_slots_last last_opt_def)

lemma last_filter_in: "filter P xs \<noteq> [] \<Longrightarrow> last (filter P xs) \<in> set xs \<and> P (last (filter P xs))"
  using last_in_set [of "filter P xs"] by simp

lemmas eval_pairing =
  get_readpair_def readpair_slots_def readpair_step_def marker_match_def rev_match_def
  str_in_def name_def sublist_Cons_right

text \<open>
  Claim C3, as stated, fails for the reverse slot: of the two files whose names contain the
  sample ID \<^verbatim>\<open>S1\<close> and the reverse marker \<^verbatim>\<open>_R2\<close>, the last one in the collection is
  \<^verbatim>\<open>S1_R1_R2.fq\<close>, yet the reverse file returned is \<^verbatim>\<open>S1_R2.fq\<close>, because the last one
  also contains the forward marker and goes to the forward slot.
\<close>

theorem C3_counterexample:
  "last (filter (marker_match ''S1'' ''_R2'') [[''in'', ''S1_R2.fq''], [''in'', ''S1_R1_R2.fq'']])
     = [''in'', ''S1_R1_R2.fq''] \<and>
   fst (get_readpair ''S1'' [[''in'', ''S1_R2.fq''], [''in'', ''S1_R1_R2.fq'']] ''_R1'' ''_R2'')
     = Some (Some [''in'', ''S1_R1_R2.fq''], Some [''in'', ''S1_R2.fq''])"
  by (simp add: eval_pairing)

text \<open>
  Claim C3, amended: each slot ends up with the last file of the collection that the loop
  assigns to it. For the forward slot these are the files whose names contain the sample ID
  and the forward marker; for the reverse slot, the files whose names contain the sample
  ID and the reverse marker and do not contain the forward marker. A returned pair
  consists of these two last files.
\<close>

theorem C3_last_match_wins:
  "readpair_slots s fs fw rv =
     (last_opt (filter (marker_match s fw) fs), last_opt (filter (rev_match s fw rv) fs)) \<and>
   (fst (get_readpair s fs fw rv) = Some (r1, r2) \<longrightarrow>
     filter (marker_match s fw) fs \<noteq> [] \<and> r1 = Some (last (filter (marker_match s fw) fs)) \<and>
     filter (rev_match s fw rv) fs \<noteq> [] \<and> r2 = Some (last (filter (rev_match s fw rv) fs)))"
  by (auto simp: get_readpair_eq readpair_slots_last split: if_splits)

text \<open>
  Claim C3 at a collection with two forward and two reverse files of sample \<^verbatim>\<open>S1\<close>: the
  later file of each kind is returned.
\<close>

theorem C3_last_match_wins_witness:
  "fst (get_readpair ''S1''
          [[''in'', ''S1_R1_a.fq''], [''in'', ''S1_R2_a.fq''], [''in'', ''S1_R1_b.fq''], [''in'', ''S1_R2_b.fq'']]
          ''_R1'' ''_R2'')
     = Some (Some [''in'', ''S1_R1_b.fq''], Some [''in'', ''S1_R2_b.fq'']) \<and>
   last (filter (marker_match ''S1'' ''_R1'')
          [[''in'', ''S1_R1_a.fq''], [''in'', ''S1_R2_a.fq''], [''in'', ''S1_R1_b.fq''], [''in'', ''S1_R2_b.fq'']])
     = [''in'', ''S1_R1_b.fq''] \<and>
   last (filter (rev_match ''S1'' ''_R1'' ''_R2'')
          [[''in'', ''S1_R1_a.fq''], [''in'', ''S1_R2_a.fq''], [''in'', ''S1_R1_b.fq''], [''in'', ''S1_R2_b.fq'']])
     = [''in'', ''S1_R2_b.fq'']"
  using C3_last_match_wins [of "''S1''"
          "[[''in'', ''S1_R1_a.fq''], [''in'', ''S1_R2_a.fq''], [''in'', ''S1_R1_b.fq''], [''in'', ''S1_R2_b.fq'']]"
          "''_R1''" "''_R2''" "Some [''in'', ''S1_R1_b.fq'']" "Some [''in'', ''S1_R2_b.fq'']"]
  by (simp add: eval_pairing last_opt_def)

text \<open>
  Claim C5: a slot is resolved exactly when some file of the collection is assigned to it,
  and \<open>get_readpair\<close> returns the pair of slots, logging nothing, exactly when both slots
  are resolved; in every other case it returns \<open>None\<close> and logs that the sample could not
  be paired. The function itself raises nothing.
\<close>

theorem C5_pair_iff_both_resolve:
  "(fst (readpair_slots s fs fw rv) \<noteq> None \<longleftrightarrow> (\<exists>f\<in>set fs. marker_match s fw f)) \<and>
   (snd (readpair_slots s fs fw rv) \<noteq> None \<longleftrightarrow> (\<exists>f\<in>set fs. rev_match s fw rv f)) \<and>
   get_readpair s fs fw rv =
     (if fst (readpair_slots s fs fw rv) \<noteq> None \<and> snd (readpair_slots s fs fw rv) \<noteq> None
      then (Some (readpair_slots s fs fw rv), [])
      else (None, [CouldNotPair s]))"
  by (simp add: get_readpair_def readpair_slots_last last_opt_def filter_empty_conv)

text \<open>
  Claim C6: whenever \<open>get_readpair\<close> returns a pair, both members are resolved, both are
  files of the input collection whose names contain the sample ID, the name of the forward
  member contains the forward marker and the name of the reverse member contains the
  reverse marker.
\<close>

theorem C6_readpair_invariant:
  "fst (get_readpair s fs fw rv) = Some (r1, r2) \<Longrightarrow>
     \<exists>a b. r1 = Some a \<and> r2 = Some b \<and> a \<in> set fs \<and> b \<in> set fs \<and>
           str_in s (name a) \<and> str_in s (name b) \<and>
           str_in fw (name a) \<and> str_in rv (name b)"
proof -
  assume h: "fst (get_readpair s fs fw rv) = Some (r1, r2)"
  let ?A = "filter (marker_match s fw) fs" and ?B = "filter (rev_match s fw rv) fs"
  from h have ne: "?A \<noteq> []" "?B \<noteq> []" and r: "r1 = Some (last ?A)" "r2 = Some (last ?B)"
    by (auto simp: get_readpair_eq split: if_splits)
  from last_filter_in [OF ne(1)] last_filter_in [OF ne(2)] r show ?thesis
    by (auto simp: marker_match_def rev_match_def)
qed

text \<open>Claim C6 at the pair of sample \<^verbatim>\<open>S1\<close>.\<close>

theorem C6_readpair_invariant_witness:
  "fst (get_readpair ''S1'' [[''in'', ''S1_R1.fq''], [''in'', ''S1_R2.fq'']] ''_R1'' ''_R2'')
     = Some (Some [''in'', ''S1_R1.fq''], Some [''in'', ''S1_R2.fq'']) \<and>
   (\<exists>a b. Some [''in'', ''S1_R1.fq''] = Some a \<and> Some [''in'', ''S1_R2.fq''] = Some b \<and>
      a \<in> set [[''in'', ''S1_R1.fq''], [''in'', ''S1_R2.fq'']] \<and>
      b \<in> set [[''in'', ''S1_R1.fq''], [''in'', ''S1_R2.fq'']] \<and>
      str_in ''S1'' (name a) \<and> str_in ''S1'' (name b) \<and>
      str_in ''_R1'' (name a) \<and> str_in ''_R2'' (name b))"
proof -
  have h: "fst (get_readpair ''S1'' [[''in'', ''S1_R1.fq''], [''in'', ''S1_R2.fq'']] ''_R1'' ''_R2'')
     = Some (Some [''in'', ''S1_R1.fq''], Some [''in'', ''S1_R2.fq''])"
    by (simp add: eval_pairing)
  from h C6_readpair_invariant [OF h] show ?thesis by blast
qed

lemma rev_slot_None:
  "snd (readpair_slots s fs fw rv) = None \<longleftrightarrow> (\<forall>f\<in>set fs. \<not> rev_match s fw rv f)"
  by (simp add: readpair_slots_last last_opt_def filter_empty_conv)

text \<open>
  Claim C10: the test of the forward marker comes first. A file whose name contains the
  sample ID and the forward marker is put into the forward slot and leaves the reverse slot
  as it was, whatever else its name contains; the file in the reverse slot never contains
  the forward marker; if every file whose name contains the sample ID and the reverse
  marker also contains the forward marker, the reverse slot stays empty and pairing
  fails; this is so in particular when the two markers are equal.
\<close>

theorem C10_forward_precedence:
  "(str_in s (name f) \<and> str_in fw (name f) \<longrightarrow>
      readpair_step s fw rv (r1, r2) f = (Some f, r2)) \<and>
   (snd (readpair_slots s fs fw rv) = Some g \<longrightarrow>
      g \<in> set fs \<and> \<not> str_in fw (name g)) \<and>
   ((\<forall>h\<in>set hs. str_in s (name h) \<and> str_in rv (name h) \<longrightarrow> str_in fw (name h)) \<longrightarrow>
      snd (readpair_slots s hs fw rv) = None \<and>
      get_readpair s hs fw rv = (None, [CouldNotPair s])) \<and>
   get_readpair s fs m m = (None, [CouldNotPair s])"
proof (intro conjI impI)
  assume "str_in s (name f) \<and> str_in fw (name f)"
  then show "readpair_step s fw rv (r1, r2) f = (Some f, r2)"
    by (simp add: readpair_step_def)
next
  assume a: "snd (readpair_slots s fs fw rv) = Some g"
  then have ne: "filter (rev_match s fw rv) fs \<noteq> []" and g: "g = last (filter (rev_match s fw rv) fs)"
    by (auto simp: readpair_slots_last last_opt_def split: if_splits)
  from last_filter_in [OF ne] g show "g \<in> set fs" by simp
  from last_filter_in [OF ne] g show "\<not> str_in fw (name g)"
    by (simp add: rev_match_def)
next
  assume a: "\<forall>h\<in>set hs. str_in s (name h) \<and> str_in rv (name h) \<longrightarrow> str_in fw (name h)"
  then have none: "\<forall>h\<in>set hs. \<not> rev_match s fw rv h"
    by (auto simp: rev_match_def marker_match_def)
  then show "snd (readpair_slots s hs fw rv) = None"
    by (simp add: rev_slot_None)
  from none show "get_readpair s hs fw rv = (None, [CouldNotPair s])"
    by (simp add: get_readpair_eq filter_empty_conv)
next
  have "\<forall>h\<in>set fs. \<not> rev_match s m m h"
    by (simp add: rev_match_def marker_match_def)
  then show "get_readpair s fs m m = (None, [CouldNotPair s])"
    by (simp add: get_readpair_eq filter_empty_conv)
qed

text \<open>
  Claim C10 at the file \<^verbatim>\<open>S1_R1_R2.fq\<close>, which contains both default markers, and with
  equal markers.
\<close>

theorem C10_forward_precedence_witness:
  "readpair_step ''S1'' ''_R1'' ''_R2'' (None, Some [''in'', ''S1_R2.fq'']) [''in'', ''S1_R1_R2.fq'']
     = (Some [''in'', ''S1_R1_R2.fq''], Some [''in'', ''S1_R2.fq'']) \<and>
   snd (readpair_slots ''S1'' [[''in'', ''S1_R2.fq''], [''in'', ''S1_R1_R2.fq'']] ''_R1'' ''_R2'')
     = Some [''in'', ''S1_R2.fq''] \<and>
   \<not> str_in ''_R1'' (name [''in'', ''S1_R2.fq'']) \<and>
   get_readpair ''S1'' [[''in'', ''S1_R1.fq''], [''in'', ''S1_R1_R2.fq'']] ''_R1'' ''_R2''
     = (None, [CouldNotPair ''S1'']) \<and>
   get_readpair ''S1'' [[''in'', ''S1_R2.fq''], [''in'', ''S1_R1_R2.fq'']] ''_R1'' ''_R1''
     = (None, [CouldNotPair ''S1''])"
  using C10_forward_precedence [of "''S1''" "[''in'', ''S1_R1_R2.fq'']" "''_R1''" "''_R2''"
          None "Some [''in'', ''S1_R2.fq'']"
          "[[''in'', ''S1_R2.fq''], [''in'', ''S1_R1_R2.fq'']]" "[''in'', ''S1_R2.fq'']"
          "[[''in'', ''S1_R1.fq''], [''in'', ''S1_R1_R2.fq'']]" "''_R1''"]
  by (simp add: readpair_slots_def readpair_step_def str_in_def name_def sublist_Cons_right)

text \<open>
  Claim C5 at three inputs: both files present, only the forward file present, and no
  file of the sample present.
\<close>

theorem C5_pair_iff_both_resolve_witness:
  "get_readpair ''S1'' [[''in'', ''S1_R1.fq''], [''in'', ''S1_R2.fq'']] ''_R1'' ''_R2''
     = (Some (Some [''in'', ''S1_R1.fq''], Some [''in'', ''S1_R2.fq'']), []) \<and>
   get_readpair ''S2'' [[''in'', ''S2_R1.fq'']] ''_R1'' ''_R2'' = (None, [CouldNotPair ''S2'']) \<and>
   get_readpair ''S3'' [[''in'', ''S1_R1.fq'']] ''_R1'' ''_R2'' = (None, [CouldNotPair ''S3''])"
  using C5_pair_iff_both_resolve [of "''S1''" "[[''in'', ''S1_R1.fq''], [''in'', ''S1_R2.fq'']]" "''_R1''" "''_R2''"]
        C5_pair_iff_both_resolve [of "''S2''" "[[''in'', ''S2_R1.fq'']]" "''_R1''" "''_R2''"]
        C5_pair_iff_both_resolve [of "''S3''" "[[''in'', ''S1_R1.fq'']]" "''_R1''" "''_R2''"]
  by (simp add: readpair_slots_def readpair_step_def str_in_def name_def sublist_Cons_right)


section \<open>Properties of the sample IDs\<close>

lemma split_chr_first:
  "\<exists>ws. split_chr sep s = takeWhile (\<lambda>c. c \<noteq> sep) s # ws"
  by (induction s) auto

lemma sample_id_of_takeWhile:
  "sample_id_of f = takeWhile (\<lambda>c. c \<noteq> CHR ''_'') (name f)"
proof -
  obtain ws where "split_chr (CHR ''_'') (name f) = takeWhile (\<lambda>c. c \<noteq> CHR ''_'') (name f) # ws"
    using split_chr_first by blast
  then show ?thesis by (simp add: sample_id_of_def)
qed

lemma takeWhile_before_sep:
  "takeWhile (\<lambda>c. c \<noteq> sep) (pre @ sep # rest) = takeWhile (\<lambda>c. c \<noteq> sep) pre"
  by (induction pre) auto

lemma set_retrieve_sampleids:
  "set (retrieve_sampleids fl) = sample_id_of ` set fl"
  by (simp add: retrieve_sampleids_def)

text \<open>
  Claim C4: the sample ID of a file is the part of its name before the first underscore,
  and the whole name when the name has no underscore; the list of sample IDs holds the
  sample ID of every file, and no sample ID twice.
\<close>

theorem C4_sample_id_prefix:
  "sample_id_of f = takeWhile (\<lambda>c. c \<noteq> CHR ''_'') (name f) \<and>
   (name f = pre @ CHR ''_'' # rest \<and> CHR ''_'' \<notin> set pre \<longrightarrow> sample_id_of f = pre) \<and>
   (CHR ''_'' \<notin> set (name g) \<longrightarrow> sample_id_of g = name g) \<and>
   set (retrieve_sampleids fl) = sample_id_of ` set fl \<and>
   distinct (retrieve_sampleids fl)"
proof (intro conjI impI)
  show "sample_id_of f = takeWhile (\<lambda>c. c \<noteq> CHR ''_'') (name f)"
    by (rule sample_id_of_takeWhile)
next
  assume "name f = pre @ CHR ''_'' # rest \<and> CHR ''_'' \<notin> set pre"
  then show "sample_id_of f = pre"
    by (auto simp: sample_id_of_takeWhile takeWhile_before_sep)
next
  assume "CHR ''_'' \<notin> set (name g)"
  then show "sample_id_of g = name g"
    by (auto simp: sample_id_of_takeWhile)
next
  show "set (retrieve_sampleids fl) = sample_id_of ` set fl"
    by (rule set_retrieve_sampleids)
next
  show "distinct (retrieve_sampleids fl)"
    by (simp add: retrieve_sampleids_def)
qed

text \<open>Claim C4 at a name with underscores and at a name without one.\<close>

theorem C4_sample_id_prefix_witness:
  "sample_id_of [''in'', ''S1_R1_001.fastq.gz''] = ''S1'' \<and>
   sample_id_of [''in'', ''reads.fastq''] = ''reads.fastq'' \<and>
   set (retrieve_sampleids [[''in'', ''S1_R1_001.fastq.gz''], [''in'', ''S1_R2_001.fastq.gz'']]) = {''S1''} \<and>
   distinct (retrieve_sampleids [[''in'', ''S1_R1_001.fastq.gz''], [''in'', ''S1_R2_001.fastq.gz'']])"
  using C4_sample_id_prefix [of "[''in'', ''S1_R1_001.fastq.gz'']" "''S1''" "''R1_001.fastq.gz''"
          "[''in'', ''reads.fastq'']" "[[''in'', ''S1_R1_001.fastq.gz''], [''in'', ''S1_R2_001.fastq.gz'']]"]
  by (simp add: name_def sample_id_of_def)

lemma sample_id_of_marked:
  "name f = i @ CHR ''_'' # rest \<Longrightarrow> sample_id_of f = takeWhile (\<lambda>c. c \<noteq> CHR ''_'') i"
  by (simp add: sample_id_of_takeWhile takeWhile_before_sep)

lemma str_in_prefix_part: "str_in (takeWhile P i) (i @ rest)"
proof -
  have "i @ rest = [] @ takeWhile P i @ (dropWhile P i @ rest)" by simp
  then show ?thesis unfolding str_in_def sublist_def by blast
qed

lemma str_in_middle: "str_in m (i @ m @ rest)"
  unfolding str_in_def sublist_def by blast

text \<open>
  Claim C7, as stated, fails in two ways. Two distinct ids that agree up to their first
  underscore (\<^verbatim>\<open>a_x\<close> and \<^verbatim>\<open>a_y\<close>) yield one sample ID, not two; and an R2 file whose
  name contains \<^verbatim>\<open>_R1\<close> further on is taken for a forward file, so that its sample is not
  paired.
\<close>

theorem C7_counterexample:
  "retrieve_sampleids
     [[''in'', ''a_x_R1.fq''], [''in'', ''a_x_R2.fq''], [''in'', ''a_y_R1.fq''], [''in'', ''a_y_R2.fq'']]
     = [''a''] \<and>
   retrieve_sampleids [[''in'', ''S1_R1.fq''], [''in'', ''S1_R2_R1.fq'']] = [''S1''] \<and>
   get_readpair ''S1'' [[''in'', ''S1_R1.fq''], [''in'', ''S1_R2_R1.fq'']] ''_R1'' ''_R2''
     = (None, [CouldNotPair ''S1''])"
  by (simp add: retrieve_sampleids_def sample_id_of_def eval_pairing)

lemma get_readpair_resolves:
  assumes a: "a \<in> set fl" "marker_match s fw a"
    and b: "b \<in> set fl" "rev_match s fw rv b"
  shows "\<exists>x y. fst (get_readpair s fl fw rv) = Some (Some x, Some y) \<and>
           x \<in> set fl \<and> y \<in> set fl \<and> marker_match s fw x \<and> marker_match s rv y"
proof -
  let ?A = "filter (marker_match s fw) fl" and ?B = "filter (rev_match s fw rv) fl"
  from a have neA: "?A \<noteq> []" by (auto simp: filter_empty_conv)
  from b have neB: "?B \<noteq> []" by (auto simp: filter_empty_conv)
  from neA neB have "fst (get_readpair s fl fw rv) = Some (Some (last ?A), Some (last ?B))"
    by (simp add: get_readpair_eq)
  moreover from last_filter_in [OF neA] have "last ?A \<in> set fl" "marker_match s fw (last ?A)"
    by simp_all
  moreover from last_filter_in [OF neB] have "last ?B \<in> set fl" "marker_match s rv (last ?B)"
    by (simp_all add: rev_match_def)
  ultimately show ?thesis by blast
qed

text \<open>
  Claim C7, amended: take files named \<open>id_R1...\<close> and \<open>id_R2...\<close> for each of \<open>K\<close> ids
  whose parts before the first underscore are pairwise distinct (for ids without an
  underscore: \<open>K\<close> distinct ids), such that no name \<open>id_R2...\<close> contains \<^verbatim>\<open>_R1\<close>, and no
  other files. Then the list of sample IDs has exactly \<open>K\<close> members, namely these parts of
  the ids, and with the default markers \<open>get_readpair\<close> resolves every one of them to a
  pair of files of the collection whose names contain the sample ID and the respective
  marker.
\<close>

theorem C7_paired_inputs:
  fixes specs :: "(string \<times> string \<times> string) list"
  assumes pre: "distinct (map (\<lambda>(i, s1, s2). takeWhile (\<lambda>c. c \<noteq> CHR ''_'') i) specs)"
    and nofwd: "\<forall>(i, s1, s2)\<in>set specs. \<not> str_in ''_R1'' (i @ ''_R2'' @ s2)"
    and names: "set (map name fl) = (\<Union>(i, s1, s2)\<in>set specs. {i @ ''_R1'' @ s1, i @ ''_R2'' @ s2})"
  shows "length (retrieve_sampleids fl) = length specs \<and>
         set (retrieve_sampleids fl) = (\<lambda>(i, s1, s2). takeWhile (\<lambda>c. c \<noteq> CHR ''_'') i) ` set specs \<and>
         (\<forall>sid\<in>set (retrieve_sampleids fl).
            \<exists>a b. fst (get_readpair sid fl ''_R1'' ''_R2'') = Some (Some a, Some b) \<and>
                  a \<in> set fl \<and> b \<in> set fl \<and>
                  marker_match sid ''_R1'' a \<and> marker_match sid ''_R2'' b)"
proof -
  let ?pre = "\<lambda>i::string. takeWhile (\<lambda>c. c \<noteq> CHR ''_'') i"
  let ?key = "\<lambda>(i::string, s1::string, s2::string). ?pre i"
  have in_names: "name f \<in> (\<Union>(i, s1, s2)\<in>set specs. {i @ ''_R1'' @ s1, i @ ''_R2'' @ s2})"
    if "f \<in> set fl" for f
    using that names by (metis image_eqI set_map)
  have sid_file: "\<exists>(i, s1, s2)\<in>set specs. sample_id_of f = ?pre i" if "f \<in> set fl" for f
  proof -
    from in_names [OF that] obtain i s1 s2 where sp: "(i, s1, s2) \<in> set specs"
      and nm: "name f = i @ ''_R1'' @ s1 \<or> name f = i @ ''_R2'' @ s2"
      by auto
    from nm have "sample_id_of f = ?pre i"
      by (auto simp: sample_id_of_marked)
    with sp show ?thesis by auto
  qed
  have files_of: "\<exists>a b. a \<in> set fl \<and> b \<in> set fl \<and> name a = i @ ''_R1'' @ s1 \<and> name b = i @ ''_R2'' @ s2"
    if "(i, s1, s2) \<in> set specs" for i s1 s2
  proof -
    from that have "i @ ''_R1'' @ s1 \<in> set (map name fl)" "i @ ''_R2'' @ s2 \<in> set (map name fl)"
      unfolding names by auto
    then obtain a b where "a \<in> set fl" "name a = i @ ''_R1'' @ s1" "b \<in> set fl" "name b = i @ ''_R2'' @ s2"
      by (auto simp: image_iff)
    then show ?thesis by blast
  qed
  have img: "sample_id_of ` set fl = ?key ` set specs"
  proof (intro equalityI subsetI)
    fix x assume "x \<in> sample_id_of ` set fl"
    then obtain f where "f \<in> set fl" "x = sample_id_of f" by auto
    with sid_file [of f] show "x \<in> ?key ` set specs" by force
  next
    fix x assume "x \<in> ?key ` set specs"
    then obtain i s1 s2 where sp: "(i, s1, s2) \<in> set specs" and x: "x = ?pre i" by auto
    from files_of [OF sp] obtain a where "a \<in> set fl" "name a = i @ ''_R1'' @ s1" by auto
    then have "a \<in> set fl" "sample_id_of a = ?pre i"
      by (simp_all add: sample_id_of_marked)
    with x show "x \<in> sample_id_of ` set fl" by force
  qed
  have ids: "set (retrieve_sampleids fl) = ?key ` set specs"
    using img by (simp add: set_retrieve_sampleids)
  have "length (retrieve_sampleids fl) = card (set (map sample_id_of fl))"
    by (simp add: retrieve_sampleids_def length_remdups_card_conv)
  also have "\<dots> = card (set (map ?key specs))"
    using img by simp
  also have "\<dots> = length specs"
    using distinct_card [OF pre] by simp
  finally have len: "length (retrieve_sampleids fl) = length specs" .
  have pairs: "\<exists>a b. fst (get_readpair sid fl ''_R1'' ''_R2'') = Some (Some a, Some b) \<and>
                  a \<in> set fl \<and> b \<in> set fl \<and>
                  marker_match sid ''_R1'' a \<and> marker_match sid ''_R2'' b"
    if "sid \<in> set (retrieve_sampleids fl)" for sid
  proof -
    from that ids obtain i s1 s2 where sp: "(i, s1, s2) \<in> set specs" and sid: "sid = ?pre i"
      by auto
    from files_of [OF sp] obtain a b where ab: "a \<in> set fl" "b \<in> set fl"
      and na: "name a = i @ ''_R1'' @ s1" and nb: "name b = i @ ''_R2'' @ s2"
      by auto
    from sp nofwd have nf: "\<not> str_in ''_R1'' (i @ ''_R2'' @ s2)" by auto
    have ma: "marker_match sid ''_R1'' a"
      unfolding marker_match_def na sid using str_in_prefix_part str_in_middle by blast
    have mb: "rev_match sid ''_R1'' ''_R2'' b"
      unfolding rev_match_def marker_match_def nb sid
      using str_in_prefix_part str_in_middle nf by blast
    from get_readpair_resolves [OF ab(1) ma ab(2) mb] show ?thesis .
  qed
  from len ids pairs show ?thesis by blast
qed


text \<open>Claim C7 at the four files of the samples \<^verbatim>\<open>S1\<close> and \<^verbatim>\<open>S2\<close>.\<close>

theorem C7_paired_inputs_witness:
  "length (retrieve_sampleids
     [[''in'', ''S1_R1.fq''], [''in'', ''S2_R1.fq''], [''in'', ''S2_R2.fq''], [''in'', ''S1_R2.fq'']]) = 2 \<and>
   set (retrieve_sampleids
     [[''in'', ''S1_R1.fq''], [''in'', ''S2_R1.fq''], [''in'', ''S2_R2.fq''], [''in'', ''S1_R2.fq'']])
     = {''S1'', ''S2''} \<and>
   (\<exists>a b. fst (get_readpair ''S1''
                  [[''in'', ''S1_R1.fq''], [''in'', ''S2_R1.fq''], [''in'', ''S2_R2.fq''], [''in'', ''S1_R2.fq'']]
                  ''_R1'' ''_R2'') = Some (Some a, Some b) \<and>
            marker_match ''S1'' ''_R1'' a \<and> marker_match ''S1'' ''_R2'' b) \<and>
   (\<exists>a b. fst (get_readpair ''S2''
                  [[''in'', ''S1_R1.fq''], [''in'', ''S2_R1.fq''], [''in'', ''S2_R2.fq''], [''in'', ''S1_R2.fq'']]
                  ''_R1'' ''_R2'') = Some (Some a, Some b) \<and>
            marker_match ''S2'' ''_R1'' a \<and> marker_match ''S2'' ''_R2'' b)"
proof -
  let ?specs = "[(''S1'', ''.fq'', ''.fq''), (''S2'', ''.fq'', ''.fq'')]"
  let ?fl = "[[''in'', ''S1_R1.fq''], [''in'', ''S2_R1.fq''], [''in'', ''S2_R2.fq''], [''in'', ''S1_R2.fq'']]"
  have h1: "distinct (map (\<lambda>(i, s1, s2). takeWhile (\<lambda>c. c \<noteq> CHR ''_'') i) ?specs)"
    by simp
  have h2: "\<forall>(i, s1, s2)\<in>set ?specs. \<not> str_in ''_R1'' (i @ ''_R2'' @ s2)"
    by (simp add: str_in_def sublist_Cons_right)
  have h3: "set (map name ?fl) = (\<Union>(i, s1, s2)\<in>set ?specs. {i @ ''_R1'' @ s1, i @ ''_R2'' @ s2})"
    by (simp add: name_def insert_commute)
  note c = C7_paired_inputs [OF h1 h2 h3]
  from c have len: "length (retrieve_sampleids ?fl) = 2"
    by simp
  from c have st: "set (retrieve_sampleids ?fl) = {''S1'', ''S2''}"
    by simp
  from c have every: "\<forall>sid\<in>set (retrieve_sampleids ?fl).
      \<exists>a b. fst (get_readpair sid ?fl ''_R1'' ''_R2'') = Some (Some a, Some b) \<and>
            a \<in> set ?fl \<and> b \<in> set ?fl \<and>
            marker_match sid ''_R1'' a \<and> marker_match sid ''_R2'' b"
    by (rule conjunct2 [THEN conjunct2])
  have m1: "''S1'' \<in> set (retrieve_sampleids ?fl)" and m2: "''S2'' \<in> set (retrieve_sampleids ?fl)"
    unfolding st by simp_all
  from bspec [OF every m1] have p1: "\<exists>a b. fst (get_readpair ''S1'' ?fl ''_R1'' ''_R2'') = Some (Some a, Some b) \<and>
            marker_match ''S1'' ''_R1'' a \<and> marker_match ''S1'' ''_R2'' b"
    by blast
  from bspec [OF every m2] have p2: "\<exists>a b. fst (get_readpair ''S2'' ?fl ''_R1'' ''_R2'') = Some (Some a, Some b) \<and>
            marker_match ''S2'' ''_R1'' a \<and> marker_match ''S2'' ''_R2'' b"
    by blast
  from len st p1 p2 show ?thesis by (intro conjI)
qed

section \<open>Properties of the file scanner\<close>










section \<open>Properties of directory creation\<close>

lemma node_append: "node fs x = Some k \<Longrightarrow> node (fs @ ys) x = Some k"
  by (auto simp: node_def map_add_def split: if_splits)

lemma resolve_append: "resolve fs cur p = Inr q \<Longrightarrow> resolve (fs @ ys) cur p = Inr q"
proof (induction p arbitrary: cur)
  case Nil
  then show ?case by simp
next
  case (Cons c cs)
  from Cons.prems have d: "node fs cur = Some Dir" and r: "resolve fs (step cur c) cs = Inr q"
    by (auto split: option.splits kind.splits)
  from node_append [OF d] Cons.IH [OF r] show ?case by simp
qed

lemma resolve_snoc:
  "resolve fs cur (xs @ [c]) =
     (case resolve fs cur xs of
        Inl e \<Rightarrow> Inl e
      | Inr q \<Rightarrow>
          (case node fs q of
             None \<Rightarrow> Inl FileNotFoundError
           | Some File \<Rightarrow> Inl NotADirectoryError
           | Some Dir \<Rightarrow> Inr (step q c)))"
  by (induction xs arbitrary: cur) (auto split: option.splits kind.splits)

lemma resolve_parent:
  assumes "p \<noteq> []" and "resolve fs [] p = Inr r"
  shows "\<exists>q. resolve fs [] (parent p) = Inr q \<and> node fs q = Some Dir \<and> r = step q (name p)"
proof -
  from assms(1) have p: "p = parent p @ [name p]"
    by (simp add: parent_def name_def)
  from assms(2) have "resolve fs [] (parent p @ [name p]) = Inr r"
    using p by simp
  then show ?thesis
    by (auto simp: resolve_snoc split: sum.splits option.splits kind.splits)
qed

lemma exists_parent:
  assumes "p \<noteq> []" and "exists fs p"
  shows "exists fs (parent p)"
proof -
  from assms(2) obtain r where "resolve fs [] p = Inr r"
    by (auto simp: exists_def lookup_def split: sum.splits)
  from resolve_parent [OF assms(1) this] show ?thesis
    by (auto simp: exists_def lookup_def)
qed

lemma mkdir_Raised: "mkdir p fs = Raised e fs' \<Longrightarrow> fs' = fs"
  by (auto simp: mkdir_def split: sum.splits option.splits kind.splits if_splits)

lemma mkdir_exists: "exists fs p \<Longrightarrow> mkdir p fs = Raised FileExistsError fs"
  by (simp add: mkdir_def)

lemma mkdir_Done_is_dir:
  assumes mk: "mkdir p fs = Done fs'"
  shows "is_dir fs' p"
proof -
  from mk have nex: "\<not> exists fs p"
    by (auto simp: mkdir_def split: if_splits)
  then have ne: "p \<noteq> []"
    by (auto simp: exists_def lookup_def node_def)
  from mk nex obtain q where rq: "resolve fs [] (parent p) = Inr q" and dq: "node fs q = Some Dir"
    and fs': "fs' = fs @ [(step q (name p), Dir)]"
    by (auto simp: mkdir_def split: sum.splits option.splits kind.splits)
  let ?r = "step q (name p)"
  from ne have p: "p = parent p @ [name p]"
    by (simp add: parent_def name_def)
  have "resolve fs [] (parent p @ [name p]) = Inr ?r"
    using rq dq by (simp add: resolve_snoc)
  with p have "resolve fs [] p = Inr ?r" by simp
  with nex have none: "node fs ?r = None"
    by (simp add: exists_def lookup_def)
  then have new: "node fs' ?r = Some Dir"
    unfolding fs' by (auto simp: node_def map_add_def split: if_splits)
  have "resolve fs' [] (parent p @ [name p]) = Inr ?r"
    using resolve_append [OF rq] node_append [OF dq] unfolding fs' by (simp add: resolve_snoc)
  with p have "resolve fs' [] p = Inr ?r" by simp
  with new show ?thesis by (simp add: is_dir_def lookup_def)
qed

lemma makedirs_Done_is_dir:
  assumes "makedirs p ok fs = Done fs'"
  shows "is_dir fs' p"
proof -
  from assms obtain fs1 where
    "(case mkdir p fs1 of
        Done fs2 \<Rightarrow> Done fs2
      | Raised e fs2 \<Rightarrow> if \<not> ok \<or> \<not> is_dir fs2 p then Raised e fs2 else Done fs2) = Done fs'"
    by (subst (asm) makedirs.simps) (auto split: outcome.splits if_splits)
  then show ?thesis
    by (auto split: outcome.splits if_splits dest: mkdir_Done_is_dir)
qed

lemma makedirs_existing:
  assumes d: "is_dir fs p"
  shows "makedirs p True fs = Done fs"
proof -
  from d have ex: "exists fs p" by (simp add: is_dir_def exists_def)
  have par: "\<not> (p \<noteq> [] \<and> \<not> exists fs (parent p))"
    using exists_parent [OF _ ex] by blast
  show ?thesis
    by (subst makedirs.simps) (simp add: par mkdir_exists [OF ex] d)
qed

lemma makedirs_again:
  "makedirs p True fs = Done fs' \<Longrightarrow> makedirs p True fs' = Done fs'"
  by (rule makedirs_existing) (rule makedirs_Done_is_dir)

lemmas eval_fs =
  makedirs.simps mkdir_def exists_def is_dir_def lookup_def node_def step_def parent_def name_def

section \<open>Properties of the orchestrator\<close>

text \<open>
  A sample that cannot be paired stops the loop: the body raises \<open>TypeError\<close> after the
  message of \<open>get_readpair\<close>, with the file system untouched, and a run over sample IDs
  that include such a sample never finishes normally.
\<close>

lemma process_sample_unpaired:
  "fst (get_readpair sid fl fw rv) = None \<Longrightarrow>
     process_sample pl cl fl out fw rv sid w = Raised TypeError (infos [CouldNotPair sid] w)"
  by (auto simp: process_sample_def get_readpair_eq split: if_splits)

lemma run_samples_unpaired:
  "sid \<in> set ids \<Longrightarrow> fst (get_readpair sid fl fw rv) = None \<Longrightarrow>
     \<exists>e w'. run_samples (process_sample pl cl fl out fw rv) ids w = Raised e w'"
proof (induction ids arbitrary: w)
  case Nil
  then show ?case by simp
next
  case (Cons x ids)
  show ?case
  proof (cases "process_sample pl cl fl out fw rv x w")
    case (Raised e w')
    then show ?thesis by simp
  next
    case (Done w')
    with process_sample_unpaired [OF Cons.prems(2)] have "x \<noteq> sid" by auto
    with Cons.prems have "sid \<in> set ids" by simp
    from Cons.IH [OF this Cons.prems(2)] Done show ?thesis by simp
  qed
qed

lemmas eval_run =
  assemble_dir_def perform_def bind_def process_sample_def info_def infos_def joinpath_def Let_def

lemma perform_makedirs_existing:
  "is_dir (fsys w) p \<Longrightarrow>
     perform (MakeDirs p) (makedirs p True) w = Done (w\<lparr>events := events w @ [MakeDirs p]\<rparr>)"
  by (simp add: perform_def makedirs_existing)

lemma perform_makedirs_again:
  assumes "makedirs p True (fsys w) = Done fs1"
  shows "perform (MakeDirs p) (makedirs p True) (w\<lparr>fsys := fs1\<rparr>) =
         perform (MakeDirs p) (makedirs p True) w"
  using assms makedirs_again [OF assms] by (simp add: perform_def)

lemma get_readpair_Some_log:
  "fst (get_readpair sid fl fw rv) = Some pr \<Longrightarrow> get_readpair sid fl fw rv = (Some pr, [])"
  by (auto simp: get_readpair_def Let_def split: prod.splits if_splits)

text \<open>
  Claim C9: the creation of the root output directory by \<open>assemble_dir\<close> and of a
  sample's output directory by the loop body is idempotent. When the directory already
  exists, the creation raises nothing and leaves the file system as it is: the loop body
  goes on to the pipeline and the clean-up, and \<open>assemble_dir\<close> to the scan and the loop,
  both on the unchanged file system. When the creation succeeds, the directory exists
  afterwards, and a run from the file system it leaves behind is the same as the run that
  had to create the directory: a second creation changes nothing.
\<close>

theorem C9_creation_idempotent:
  "(fst (get_readpair sid fl fw rv) = Some (r1, r2) \<and> is_dir (fsys w) (joinpath out sid) \<longrightarrow>
      process_sample pl cl fl out fw rv sid w =
        bind (perform (AssemblyPipeline r1 r2 (joinpath out sid) sid)
                (pl r1 r2 (joinpath out sid) sid)
                (w\<lparr>events := events w @ [MakeDirs (joinpath out sid)]\<rparr>))
          (perform (CleanUp (joinpath out sid)) (cl (joinpath out sid)))) \<and>
   (fst (get_readpair sid fl fw rv) = Some (r1, r2) \<and>
    makedirs (joinpath out sid) True (fsys w') = Done fs1 \<longrightarrow>
      is_dir fs1 (joinpath out sid) \<and>
      process_sample pl cl fl out fw rv sid (w'\<lparr>fsys := fs1\<rparr>) =
        process_sample pl cl fl out fw rv sid w') \<and>
   (is_dir (fsys v) out \<longrightarrow>
      assemble_dir listing pl cl input_dir out fw rv v =
        (let v1 = v\<lparr>events := events v @ [MakeDirs out]\<rparr>;
             v2 = info (FindingFastq input_dir) (info (CreatedOutputDirectory out) v1);
             fastq_file_list = retrieve_fastqgz (fsys v) input_dir;
             v3 = info FindingSampleIds v2;
             sample_ids = listing (retrieve_sampleids fastq_file_list);
             v4 = info (FoundSampleIds (length sample_ids)) v3
         in bind (run_samples (process_sample pl cl fastq_file_list out fw rv) sample_ids v4)
              (\<lambda>v5. Done (info (PipelineComplete out) v5)))) \<and>
   (makedirs out True (fsys v') = Done fs0 \<longrightarrow>
      is_dir fs0 out \<and>
      assemble_dir listing pl cl input_dir out fw rv (v'\<lparr>fsys := fs0\<rparr>) =
        assemble_dir listing pl cl input_dir out fw rv v')"
proof (intro conjI impI)
  assume a: "fst (get_readpair sid fl fw rv) = Some (r1, r2) \<and> is_dir (fsys w) (joinpath out sid)"
  then have g: "get_readpair sid fl fw rv = (Some (r1, r2), [])"
    by (simp add: get_readpair_Some_log)
  from a have d: "is_dir (fsys w) (joinpath out sid)" by simp
  have i: "infos [] w = w" by (simp add: infos_def)
  show "process_sample pl cl fl out fw rv sid w =
        bind (perform (AssemblyPipeline r1 r2 (joinpath out sid) sid)
                (pl r1 r2 (joinpath out sid) sid)
                (w\<lparr>events := events w @ [MakeDirs (joinpath out sid)]\<rparr>))
          (perform (CleanUp (joinpath out sid)) (cl (joinpath out sid)))"
    by (simp add: process_sample_def g i perform_makedirs_existing [OF d] bind_def Let_def)
next
  assume a: "fst (get_readpair sid fl fw rv) = Some (r1, r2) \<and>
    makedirs (joinpath out sid) True (fsys w') = Done fs1"
  then have g: "get_readpair sid fl fw rv = (Some (r1, r2), [])"
    by (simp add: get_readpair_Some_log)
  from a have mk: "makedirs (joinpath out sid) True (fsys w') = Done fs1" by simp
  from mk show "is_dir fs1 (joinpath out sid)" by (rule makedirs_Done_is_dir)
  have i: "infos [] (w'\<lparr>fsys := fs1\<rparr>) = w'\<lparr>fsys := fs1\<rparr>" "infos [] w' = w'"
    by (simp_all add: infos_def)
  show "process_sample pl cl fl out fw rv sid (w'\<lparr>fsys := fs1\<rparr>) =
        process_sample pl cl fl out fw rv sid w'"
    by (simp add: process_sample_def g i perform_makedirs_again [OF mk] Let_def)
next
  assume d: "is_dir (fsys v) out"
  show "assemble_dir listing pl cl input_dir out fw rv v =
        (let v1 = v\<lparr>events := events v @ [MakeDirs out]\<rparr>;
             v2 = info (FindingFastq input_dir) (info (CreatedOutputDirectory out) v1);
             fastq_file_list = retrieve_fastqgz (fsys v) input_dir;
             v3 = info FindingSampleIds v2;
             sample_ids = listing (retrieve_sampleids fastq_file_list);
             v4 = info (FoundSampleIds (length sample_ids)) v3
         in bind (run_samples (process_sample pl cl fastq_file_list out fw rv) sample_ids v4)
              (\<lambda>v5. Done (info (PipelineComplete out) v5)))"
    by (simp add: assemble_dir_def perform_makedirs_existing [OF d] bind_def Let_def info_def)
next
  assume mk: "makedirs out True (fsys v') = Done fs0"
  then show "is_dir fs0 out" by (rule makedirs_Done_is_dir)
  show "assemble_dir listing pl cl input_dir out fw rv (v'\<lparr>fsys := fs0\<rparr>) =
        assemble_dir listing pl cl input_dir out fw rv v'"
    by (simp add: assemble_dir_def perform_makedirs_again [OF mk])
qed

text \<open>
  Claim C9 at the sample directory \<^verbatim>\<open>out/S1\<close>, present and absent, and at the output root
  \<^verbatim>\<open>out\<close>, present and absent.
\<close>

theorem C9_creation_idempotent_witness:
  "process_sample (\<lambda>r1 r2 d s. Done) (\<lambda>d. Done) [[''in'', ''S1_R1.fq''], [''in'', ''S1_R2.fq'']]
     [''out''] ''_R1'' ''_R2'' ''S1''
     \<lparr>fsys = [([''out''], Dir), ([''out'', ''S1''], Dir)], events = []\<rparr>
   = Done \<lparr>fsys = [([''out''], Dir), ([''out'', ''S1''], Dir)],
            events = [MakeDirs [''out'', ''S1''],
                      AssemblyPipeline (Some [''in'', ''S1_R1.fq'']) (Some [''in'', ''S1_R2.fq''])
                        [''out'', ''S1''] ''S1'',
                      CleanUp [''out'', ''S1'']]\<rparr> \<and>
   process_sample (\<lambda>r1 r2 d s. Done) (\<lambda>d. Done) [[''in'', ''S1_R1.fq''], [''in'', ''S1_R2.fq'']]
     [''out''] ''_R1'' ''_R2'' ''S1''
     \<lparr>fsys = [([''out''], Dir)], events = []\<rparr>
   = process_sample (\<lambda>r1 r2 d s. Done) (\<lambda>d. Done) [[''in'', ''S1_R1.fq''], [''in'', ''S1_R2.fq'']]
     [''out''] ''_R1'' ''_R2'' ''S1''
     \<lparr>fsys = [([''out''], Dir), ([''out'', ''S1''], Dir)], events = []\<rparr> \<and>
   assemble_dir (\<lambda>ids. ids) (\<lambda>r1 r2 d s. Done) (\<lambda>d. Done) [''in''] [''out''] ''_R1'' ''_R2''
     \<lparr>fsys = [([''out''], Dir)], events = []\<rparr>
   = Done \<lparr>fsys = [([''out''], Dir)],
            events = [MakeDirs [''out''], Log (CreatedOutputDirectory [''out'']),
                      Log (FindingFastq [''in'']), Log FindingSampleIds,
                      Log (FoundSampleIds 0), Log (PipelineComplete [''out''])]\<rparr> \<and>
   assemble_dir (\<lambda>ids. ids) (\<lambda>r1 r2 d s. Done) (\<lambda>d. Done) [''in''] [''out''] ''_R1'' ''_R2''
     \<lparr>fsys = [], events = []\<rparr>
   = assemble_dir (\<lambda>ids. ids) (\<lambda>r1 r2 d s. Done) (\<lambda>d. Done) [''in''] [''out''] ''_R1'' ''_R2''
     \<lparr>fsys = [([''out''], Dir)], events = []\<rparr>"
proof -
  let ?fl = "[[''in'', ''S1_R1.fq''], [''in'', ''S1_R2.fq'']]"
  let ?w = "\<lparr>fsys = [([''out''], Dir), ([''out'', ''S1''], Dir)], events = []\<rparr>"
  let ?w' = "\<lparr>fsys = [([''out''], Dir)], events = []\<rparr>"
  let ?v' = "\<lparr>fsys = [], events = []\<rparr>"
  have j: "joinpath [''out''] ''S1'' = [''out'', ''S1'']"
    by (simp add: joinpath_def)
  have g: "fst (get_readpair ''S1'' ?fl ''_R1'' ''_R2'')
             = Some (Some [''in'', ''S1_R1.fq''], Some [''in'', ''S1_R2.fq''])"
    by (simp add: eval_pairing)
  have d1: "is_dir (fsys ?w) (joinpath [''out''] ''S1'')"
    unfolding j by (simp add: is_dir_def lookup_def node_def step_def)
  have m1: "makedirs (joinpath [''out''] ''S1'') True (fsys ?w')
              = Done [([''out''], Dir), ([''out'', ''S1''], Dir)]"
    unfolding j by (simp add: eval_fs)
  have d2: "is_dir (fsys ?w') [''out'']"
    by (simp add: is_dir_def lookup_def node_def step_def)
  have m2: "makedirs [''out''] True (fsys ?v') = Done [([''out''], Dir)]"
    by (simp add: eval_fs)
  have nin: "retrieve_fastqgz [([''out''], Dir)] [''in''] = []"
    by (simp add: retrieve_fastqgz_def is_dir_def lookup_def node_def step_def)
  note c = C9_creation_idempotent [of "''S1''" ?fl "''_R1''" "''_R2''"
      "Some [''in'', ''S1_R1.fq'']" "Some [''in'', ''S1_R2.fq'']" ?w "[''out'']"
      "\<lambda>r1 r2 d s. Done" "\<lambda>d. Done" ?w' "[([''out''], Dir), ([''out'', ''S1''], Dir)]"
      ?w' "\<lambda>ids. ids" "[''in'']" ?v' "[([''out''], Dir)]"]
  from c g d1 have a1: "process_sample (\<lambda>r1 r2 d s. Done) (\<lambda>d. Done) ?fl [''out''] ''_R1'' ''_R2'' ''S1'' ?w
     = Done \<lparr>fsys = [([''out''], Dir), ([''out'', ''S1''], Dir)],
            events = [MakeDirs [''out'', ''S1''],
                      AssemblyPipeline (Some [''in'', ''S1_R1.fq'']) (Some [''in'', ''S1_R2.fq''])
                        [''out'', ''S1''] ''S1'',
                      CleanUp [''out'', ''S1'']]\<rparr>"
    by (simp add: j perform_def bind_def)
  from c g m1 have a2: "process_sample (\<lambda>r1 r2 d s. Done) (\<lambda>d. Done) ?fl [''out''] ''_R1'' ''_R2'' ''S1'' ?w'
     = process_sample (\<lambda>r1 r2 d s. Done) (\<lambda>d. Done) ?fl [''out''] ''_R1'' ''_R2'' ''S1'' ?w"
    by simp
  from c d2 have a3: "assemble_dir (\<lambda>ids. ids) (\<lambda>r1 r2 d s. Done) (\<lambda>d. Done) [''in''] [''out''] ''_R1'' ''_R2'' ?w'
     = Done \<lparr>fsys = [([''out''], Dir)],
            events = [MakeDirs [''out''], Log (CreatedOutputDirectory [''out'']),
                      Log (FindingFastq [''in'']), Log FindingSampleIds,
                      Log (FoundSampleIds 0), Log (PipelineComplete [''out''])]\<rparr>"
    by (simp add: nin retrieve_sampleids_def info_def bind_def Let_def)
  from c m2 have a4: "assemble_dir (\<lambda>ids. ids) (\<lambda>r1 r2 d s. Done) (\<lambda>d. Done) [''in''] [''out''] ''_R1'' ''_R2'' ?v'
     = assemble_dir (\<lambda>ids. ids) (\<lambda>r1 r2 d s. Done) (\<lambda>d. Done) [''in''] [''out''] ''_R1'' ''_R2'' ?w'"
    by simp
  from a1 a2 a3 a4 show ?thesis by (intro conjI)
qed

lemma retrieve_fastqgz_not_dir: "\<not> is_dir fs d \<Longrightarrow> retrieve_fastqgz fs d = []"
  by (simp add: retrieve_fastqgz_def)

text \<open>
  Claim C8, as stated, fails: for an input directory that does not exist the scanner
  returns the empty list and raises nothing, and the run goes on as for an empty
  directory: it finds no sample IDs and completes.
\<close>

theorem C8_counterexample:
  "\<not> exists [] [''missing''] \<and>
   retrieve_fastqgz [] [''missing''] = [] \<and>
   assemble_dir (\<lambda>ids. ids) (\<lambda>r1 r2 d s. Done) (\<lambda>d. Done) [''missing''] [''out''] ''_R1'' ''_R2''
     \<lparr>fsys = [], events = []\<rparr>
   = Done \<lparr>fsys = [([''out''], Dir)],
            events = [MakeDirs [''out''], Log (CreatedOutputDirectory [''out'']),
                      Log (FindingFastq [''missing'']), Log FindingSampleIds,
                      Log (FoundSampleIds 0), Log (PipelineComplete [''out''])]\<rparr>"
proof -
  have md: "makedirs [''out''] True [] = Done [([''out''], Dir)]"
    by (simp add: eval_fs)
  have g: "retrieve_fastqgz [([''out''], Dir)] [''missing''] = []"
    by (simp add: retrieve_fastqgz_def is_dir_def lookup_def node_def step_def)
  show ?thesis
    by (simp add: eval_run md g retrieve_sampleids_def retrieve_fastqgz_not_dir exists_def
          is_dir_def lookup_def node_def step_def)
qed

text \<open>
  Claim C8, amended: when the input path is not an existing directory, the scanner returns
  the empty collection without raising; the run that follows a successful creation of the
  output root then finds zero sample IDs, processes no sample and completes.
\<close>

theorem C8_missing_directory:
  "(\<not> is_dir fs d \<longrightarrow> retrieve_fastqgz fs d = []) \<and>
   (perform (MakeDirs out_dir) (makedirs out_dir True) w = Done w1 \<and>
    \<not> is_dir (fsys w1) input_dir \<and> listing [] = [] \<longrightarrow>
      assemble_dir listing pl cl input_dir out_dir fw rv w =
        Done (info (PipelineComplete out_dir) (info (FoundSampleIds 0) (info FindingSampleIds
               (info (FindingFastq input_dir) (info (CreatedOutputDirectory out_dir) w1))))))"
proof (intro conjI impI)
  assume "\<not> is_dir fs d"
  then show "retrieve_fastqgz fs d = []" by (rule retrieve_fastqgz_not_dir)
next
  assume a: "perform (MakeDirs out_dir) (makedirs out_dir True) w = Done w1 \<and>
    \<not> is_dir (fsys w1) input_dir \<and> listing [] = []"
  then have g: "retrieve_fastqgz (fsys w1) input_dir = []"
    by (simp add: retrieve_fastqgz_not_dir)
  from a g show "assemble_dir listing pl cl input_dir out_dir fw rv w =
        Done (info (PipelineComplete out_dir) (info (FoundSampleIds 0) (info FindingSampleIds
               (info (FindingFastq input_dir) (info (CreatedOutputDirectory out_dir) w1)))))"
    by (simp add: assemble_dir_def bind_def info_def Let_def retrieve_sampleids_def)
qed

text \<open>Claim C8 at an empty file system and the input directory \<^verbatim>\<open>missing\<close>.\<close>

theorem C8_missing_directory_witness:
  "\<not> is_dir [] [''missing''] \<and> retrieve_fastqgz [] [''missing''] = [] \<and>
   perform (MakeDirs [''out'']) (makedirs [''out''] True) \<lparr>fsys = [], events = []\<rparr>
     = Done \<lparr>fsys = [([''out''], Dir)], events = [MakeDirs [''out'']]\<rparr> \<and>
   \<not> is_dir [([''out''], Dir)] [''missing''] \<and>
   assemble_dir (\<lambda>ids. ids) (\<lambda>r1 r2 d s. Done) (\<lambda>d. Done) [''missing''] [''out''] ''_R1'' ''_R2''
     \<lparr>fsys = [], events = []\<rparr>
   = Done \<lparr>fsys = [([''out''], Dir)],
            events = [MakeDirs [''out''], Log (CreatedOutputDirectory [''out'']),
                      Log (FindingFastq [''missing'']), Log FindingSampleIds,
                      Log (FoundSampleIds 0), Log (PipelineComplete [''out''])]\<rparr>"
proof -
  have md: "makedirs [''out''] True [] = Done [([''out''], Dir)]"
    by (simp add: eval_fs)
  have h1: "\<not> is_dir [] [''missing'']"
    by (simp add: is_dir_def lookup_def node_def step_def)
  have h2: "perform (MakeDirs [''out'']) (makedirs [''out''] True) \<lparr>fsys = [], events = []\<rparr>
     = Done \<lparr>fsys = [([''out''], Dir)], events = [MakeDirs [''out'']]\<rparr>"
    by (simp add: perform_def md)
  have h3: "\<not> is_dir [([''out''], Dir)] [''missing'']"
    by (simp add: is_dir_def lookup_def node_def step_def)
  from C8_missing_directory [of "[]" "[''missing'']" "[''out'']" "\<lparr>fsys = [], events = []\<rparr>"
         "\<lparr>fsys = [([''out''], Dir)], events = [MakeDirs [''out'']]\<rparr>" "[''missing'']"
         "\<lambda>ids. ids" "\<lambda>r1 r2 d s. Done" "\<lambda>d. Done" "''_R1''" "''_R2''"] h1 h2 h3
  show ?thesis by (simp add: info_def)
qed

text \<open>
  Claim C1 does not hold of the code. In a directory with both files of sample \<^verbatim>\<open>S1\<close> and
  only the forward file of sample \<^verbatim>\<open>S2\<close>, the run logs that \<^verbatim>\<open>S2\<close> could not be paired
  and then stops with \<open>TypeError\<close>, whichever sample comes first; it never logs its
  completion, and when \<^verbatim>\<open>S2\<close> comes first, \<^verbatim>\<open>S1\<close> is not processed at all. No directory
  is created and no pipeline call is made for \<^verbatim>\<open>S2\<close>.
\<close>

theorem C1_unpaired_sample_aborts:
  "assemble_dir (\<lambda>ids. ids) (\<lambda>r1 r2 d s. Done) (\<lambda>d. Done) [''in''] [''out''] ''_R1'' ''_R2''
     \<lparr>fsys = [([''in''], Dir), ([''in'', ''S1_R1.fq''], File), ([''in'', ''S1_R2.fq''], File),
              ([''in'', ''S2_R1.fq''], File)],
      events = []\<rparr>
   = Raised TypeError
      \<lparr>fsys = [([''in''], Dir), ([''in'', ''S1_R1.fq''], File), ([''in'', ''S1_R2.fq''], File),
               ([''in'', ''S2_R1.fq''], File), ([''out''], Dir), ([''out'', ''S1''], Dir)],
       events = [MakeDirs [''out''], Log (CreatedOutputDirectory [''out'']),
                 Log (FindingFastq [''in'']), Log FindingSampleIds, Log (FoundSampleIds 2),
                 MakeDirs [''out'', ''S1''],
                 AssemblyPipeline (Some [''in'', ''S1_R1.fq'']) (Some [''in'', ''S1_R2.fq''])
                   [''out'', ''S1''] ''S1'',
                 CleanUp [''out'', ''S1''], Log (CouldNotPair ''S2'')]\<rparr> \<and>
   assemble_dir rev (\<lambda>r1 r2 d s. Done) (\<lambda>d. Done) [''in''] [''out''] ''_R1'' ''_R2''
     \<lparr>fsys = [([''in''], Dir), ([''in'', ''S1_R1.fq''], File), ([''in'', ''S1_R2.fq''], File),
              ([''in'', ''S2_R1.fq''], File)],
      events = []\<rparr>
   = Raised TypeError
      \<lparr>fsys = [([''in''], Dir), ([''in'', ''S1_R1.fq''], File), ([''in'', ''S1_R2.fq''], File),
               ([''in'', ''S2_R1.fq''], File), ([''out''], Dir)],
       events = [MakeDirs [''out''], Log (CreatedOutputDirectory [''out'']),
                 Log (FindingFastq [''in'']), Log FindingSampleIds, Log (FoundSampleIds 2),
                 Log (CouldNotPair ''S2'')]\<rparr>"
proof -
  let ?fs0 = "[([''in''], Dir), ([''in'', ''S1_R1.fq''], File), ([''in'', ''S1_R2.fq''], File),
              ([''in'', ''S2_R1.fq''], File)]"
  let ?fs1 = "[([''in''], Dir), ([''in'', ''S1_R1.fq''], File), ([''in'', ''S1_R2.fq''], File),
              ([''in'', ''S2_R1.fq''], File), ([''out''], Dir)]"
  let ?fl = "[[''in'', ''S1_R1.fq''], [''in'', ''S1_R2.fq''], [''in'', ''S2_R1.fq'']]"
  have m: "fnmatch ''*.f*q*'' ''S1_R1.fq''" "fnmatch ''*.f*q*'' ''S1_R2.fq''"
    "fnmatch ''*.f*q*'' ''S2_R1.fq''" "\<not> fnmatch ''*.f*q*'' ''in''" "\<not> fnmatch ''*.f*q*'' ''out''"
    by simp_all
  have md0: "makedirs [''out''] True ?fs0 = Done ?fs1"
    by (simp add: eval_fs)
  have md1: "makedirs [''out'', ''S1''] True ?fs1 = Done (?fs1 @ [([''out'', ''S1''], Dir)])"
    by (simp add: eval_fs)
  have g: "retrieve_fastqgz ?fs1 [''in''] = ?fl"
    by (simp del: fnmatch.simps
          add: m retrieve_fastqgz_def scandir_def is_dir_def lookup_def node_def step_def parent_def name_def)
  have ids: "retrieve_sampleids ?fl = [''S1'', ''S2'']"
    by (simp add: retrieve_sampleids_def sample_id_of_def name_def)
  have p1: "get_readpair ''S1'' ?fl ''_R1'' ''_R2''
              = (Some (Some [''in'', ''S1_R1.fq''], Some [''in'', ''S1_R2.fq'']), [])"
    by (simp add: eval_pairing)
  have p2: "get_readpair ''S2'' ?fl ''_R1'' ''_R2'' = (None, [CouldNotPair ''S2''])"
    by (simp add: eval_pairing)
  have a: "assemble_dir (\<lambda>ids. ids) (\<lambda>r1 r2 d s. Done) (\<lambda>d. Done) [''in''] [''out''] ''_R1'' ''_R2''
     \<lparr>fsys = ?fs0, events = []\<rparr>
   = Raised TypeError
      \<lparr>fsys = ?fs1 @ [([''out'', ''S1''], Dir)],
       events = [MakeDirs [''out''], Log (CreatedOutputDirectory [''out'']),
                 Log (FindingFastq [''in'']), Log FindingSampleIds, Log (FoundSampleIds 2),
                 MakeDirs [''out'', ''S1''],
                 AssemblyPipeline (Some [''in'', ''S1_R1.fq'']) (Some [''in'', ''S1_R2.fq''])
                   [''out'', ''S1''] ''S1'',
                 CleanUp [''out'', ''S1''], Log (CouldNotPair ''S2'')]\<rparr>"
    by (simp add: eval_run md0 md1 g ids p1 p2)
  have b: "assemble_dir rev (\<lambda>r1 r2 d s. Done) (\<lambda>d. Done) [''in''] [''out''] ''_R1'' ''_R2''
     \<lparr>fsys = ?fs0, events = []\<rparr>
   = Raised TypeError
      \<lparr>fsys = ?fs1,
       events = [MakeDirs [''out''], Log (CreatedOutputDirectory [''out'']),
                 Log (FindingFastq [''in'']), Log FindingSampleIds, Log (FoundSampleIds 2),
                 Log (CouldNotPair ''S2'')]\<rparr>"
    by (simp add: eval_run md0 g ids p2)
  from a b show ?thesis by simp
qed

end
